theory Spec2Isabelle
  imports Complex_Main
begin

section \<open>Crystal structure generator: data model\<close>

text \<open>
  The generator (\<^verbatim>\<open>crystal_structures/generator.py\<close>) resolves defaults from the element
  table, checks the request (\<^verbatim>\<open>validators.validate_input\<close>), builds one conventional cell,
  repeats it, checks the result (\<^verbatim>\<open>validators.validate_structure\<close>) and packs a dictionary.
  Python floats are idealised as real numbers; Python exceptions are values of type
  \<open>error\<close>, and every function that can raise returns \<open>error + 'a\<close>.
\<close>

subsection \<open>Exceptions\<close>

text \<open>
  The text carried by \<open>ValueError\<close> is the message as written in the source; for an
  f-string it is the format string itself, the interpolated values are not rendered.
\<close>

datatype error =
    KeyError string
  | ValueError string
  | LinAlgError

subsection \<open>Vectors and 3x3 matrices of row vectors\<close>

type_synonym vec3 = "real \<times> real \<times> real"
type_synonym mat3 = "vec3 \<times> vec3 \<times> vec3"

fun vadd :: "vec3 \<Rightarrow> vec3 \<Rightarrow> vec3" where
  "vadd (x1, y1, z1) (x2, y2, z2) = (x1 + x2, y1 + y2, z1 + z2)"

fun smul :: "real \<Rightarrow> vec3 \<Rightarrow> vec3" where
  "smul s (x, y, z) = (s * x, s * y, s * z)"

fun dot :: "vec3 \<Rightarrow> vec3 \<Rightarrow> real" where
  "dot (x1, y1, z1) (x2, y2, z2) = x1 * x2 + y1 * y2 + z1 * z2"

definition norm3 :: "vec3 \<Rightarrow> real" where
  "norm3 v = sqrt (dot v v)"

text \<open>Row-vector convention: \<open>vecmat f m\<close> is the linear combination of the rows of \<open>m\<close>.\<close>

fun vecmat :: "vec3 \<Rightarrow> mat3 \<Rightarrow> vec3" where
  "vecmat (f1, f2, f3) (a, b, c) = vadd (smul f1 a) (vadd (smul f2 b) (smul f3 c))"

fun det3 :: "mat3 \<Rightarrow> real" where
  "det3 ((a1, a2, a3), (b1, b2, b3), (c1, c2, c3)) =
     a1 * (b2 * c3 - b3 * c2) - a2 * (b1 * c3 - b3 * c1) + a3 * (b1 * c2 - b2 * c1)"

text \<open>
  Modelled from the spec: the linear solve behind \<^verbatim>\<open>Atoms.get_scaled_positions\<close> is
  missing (section 4.3, check 1: solve \<open>position = fractional \<cdot> cell\<close>).
  \<open>solve3 m p\<close> is the \<open>f\<close> with \<open>vecmat f m = p\<close>, by Cramer's rule: the i-th component is
  the determinant of \<open>m\<close> with row i replaced by \<open>p\<close>, over the determinant of \<open>m\<close>. A
  singular matrix has no such unique \<open>f\<close>: the solve fails, with numpy's \<open>LinAlgError\<close>.
\<close>

fun solve3 :: "mat3 \<Rightarrow> vec3 \<Rightarrow> error + vec3" where
  "solve3 (a, b, c) p =
     (let d = det3 (a, b, c) in
      if d = 0 then Inl LinAlgError
      else Inr (det3 (p, b, c) / d, det3 (a, p, c) / d, det3 (a, b, p) / d))"

subsection \<open>The atoms object\<close>

record atoms =
  positions :: "vec3 list"
  numbers :: "nat list"
  cell :: mat3
  pbc :: "bool \<times> bool \<times> bool"

subsection \<open>The element table (\<^verbatim>\<open>constants.py\<close>)\<close>

record element_properties =
  atomic_number :: nat
  supported_structures :: "string list"
  lattice_constants :: "string \<rightharpoonup> real"
  hcp_parameters :: "(string \<rightharpoonup> real) option"

definition ELEMENTS :: "string \<rightharpoonup> element_properties" where
  "ELEMENTS = map_of
     [(''Cu'', \<lparr>atomic_number = 29, supported_structures = [''fcc''],
               lattice_constants = map_of [(''fcc'', 361 / 100)], hcp_parameters = None\<rparr>),
      (''Fe'', \<lparr>atomic_number = 26, supported_structures = [''bcc''],
               lattice_constants = map_of [(''bcc'', 287 / 100)], hcp_parameters = None\<rparr>),
      (''Ti'', \<lparr>atomic_number = 22, supported_structures = [''hcp''],
               lattice_constants = map_of [(''hcp'', 295 / 100)],
               hcp_parameters = Some (map_of [(''c_over_a'', 1587 / 1000)])\<rparr>),
      (''Al'', \<lparr>atomic_number = 13, supported_structures = [''fcc''],
               lattice_constants = map_of [(''fcc'', 405 / 100)], hcp_parameters = None\<rparr>),
      (''Ni'', \<lparr>atomic_number = 28, supported_structures = [''fcc''],
               lattice_constants = map_of [(''fcc'', 352 / 100)], hcp_parameters = None\<rparr>),
      (''Pt'', \<lparr>atomic_number = 78, supported_structures = [''fcc''],
               lattice_constants = map_of [(''fcc'', 392 / 100)], hcp_parameters = None\<rparr>),
      (''Au'', \<lparr>atomic_number = 79, supported_structures = [''fcc''],
               lattice_constants = map_of [(''fcc'', 408 / 100)], hcp_parameters = None\<rparr>),
      (''Ag'', \<lparr>atomic_number = 47, supported_structures = [''fcc''],
               lattice_constants = map_of [(''fcc'', 409 / 100)], hcp_parameters = None\<rparr>),
      (''Zn'', \<lparr>atomic_number = 30, supported_structures = [''hcp''],
               lattice_constants = map_of [(''hcp'', 266 / 100)],
               hcp_parameters = Some (map_of [(''c_over_a'', 1856 / 1000)])\<rparr>),
      (''Mg'', \<lparr>atomic_number = 12, supported_structures = [''hcp''],
               lattice_constants = map_of [(''hcp'', 321 / 100)],
               hcp_parameters = Some (map_of [(''c_over_a'', 1624 / 1000)])\<rparr>)]"

definition VALID_STRUCTURES :: "string list" where
  "VALID_STRUCTURES = [''fcc'', ''bcc'', ''hcp'']"

definition DEFAULT_SUPERCELL_SIZE :: "int \<times> int \<times> int" where
  "DEFAULT_SUPERCELL_SIZE = (2, 2, 2)"

subsection \<open>\<^verbatim>\<open>str.lower\<close>, on ASCII letters\<close>

definition lower_char :: "char \<Rightarrow> char" where
  "lower_char ch =
     (case map_of (zip ''ABCDEFGHIJKLMNOPQRSTUVWXYZ'' ''abcdefghijklmnopqrstuvwxyz'') ch of
        None \<Rightarrow> ch
      | Some l \<Rightarrow> l)"

definition lower :: "string \<Rightarrow> string" where
  "lower s = map lower_char s"

section \<open>The library calls\<close>

text \<open>
  The generator builds and measures structures through the ASE library, which is not part
  of the repository. Its calls are modelled from the specification's sections 4.1 to 4.3.
\<close>

text \<open>
  Modelled from the spec: the library's table from chemical symbol to atomic number is
  missing. The spec's registry maps a species to its atomic number (section 2); the entries
  are those of the periodic table for the ten symbols of \<open>ELEMENTS\<close>.
\<close>

definition atomic_numbers :: "string \<rightharpoonup> nat" where
  "atomic_numbers = map_of
     [(''Mg'', 12), (''Al'', 13), (''Ti'', 22), (''Fe'', 26), (''Ni'', 28),
      (''Cu'', 29), (''Zn'', 30), (''Ag'', 47), (''Pt'', 78), (''Au'', 79)]"

text \<open>
  Modelled from the spec: \<^verbatim>\<open>ase.build.bulk\<close> is missing. Section 4.1 gives, per family,
  the cell matrix and the basis in fractional coordinates; the atoms object holds the
  Cartesian positions \<open>vecmat f cell\<close>, one atomic number per basis atom, and is periodic
  along the three axes. \<open>make_atoms\<close> is what the three calls share.
\<close>

definition make_atoms :: "string \<Rightarrow> vec3 list \<Rightarrow> mat3 \<Rightarrow> error + atoms" where
  "make_atoms name basis m =
     (case atomic_numbers name of
        None \<Rightarrow> Inl (KeyError name)
      | Some z \<Rightarrow> Inr \<lparr>positions = map (\<lambda>f. vecmat f m) basis,
                        numbers = replicate (length basis) z,
                        cell = m, pbc = (True, True, True)\<rparr>)"

text \<open>Modelled from the spec: the cell of the cubic families, \<open>diag(a, a, a)\<close> (section 4.1).\<close>

definition cubic_cell :: "real \<Rightarrow> mat3" where
  "cubic_cell a = ((a, 0, 0), (0, a, 0), (0, 0, a))"

text \<open>
  Modelled from the spec: the hexagonal cell, rows \<open>a(1, 0, 0)\<close>, \<open>a(-1/2, sqrt 3 / 2, 0)\<close> and
  \<open>(0, 0, c)\<close> (section 4.1).
\<close>

definition hcp_cell :: "real \<Rightarrow> real \<Rightarrow> mat3" where
  "hcp_cell a c = (smul a (1, 0, 0), smul a (- (1 / 2), sqrt 3 / 2, 0), (0, 0, c))"

text \<open>Modelled from the spec: the bases of the three families (section 4.1).\<close>

definition fcc_basis :: "vec3 list" where
  "fcc_basis = [(0, 0, 0), (1 / 2, 1 / 2, 0), (1 / 2, 0, 1 / 2), (0, 1 / 2, 1 / 2)]"

definition bcc_basis :: "vec3 list" where
  "bcc_basis = [(0, 0, 0), (1 / 2, 1 / 2, 1 / 2)]"

definition hcp_basis :: "vec3 list" where
  "hcp_basis = [(0, 0, 0), (1 / 3, 2 / 3, 1 / 2)]"

text \<open>Modelled from the spec: the call \<^verbatim>\<open>bulk(element, 'fcc', a=a, cubic=True)\<close>.\<close>

definition bulk_fcc :: "string \<Rightarrow> real \<Rightarrow> error + atoms" where
  "bulk_fcc name a = make_atoms name fcc_basis (cubic_cell a)"

text \<open>Modelled from the spec: the call \<^verbatim>\<open>bulk(element, 'bcc', a=a, cubic=True)\<close>.\<close>

definition bulk_bcc :: "string \<Rightarrow> real \<Rightarrow> error + atoms" where
  "bulk_bcc name a = make_atoms name bcc_basis (cubic_cell a)"

text \<open>Modelled from the spec: the call \<^verbatim>\<open>bulk(element, 'hcp', a=a, c=c)\<close>.\<close>

definition bulk_hcp :: "string \<Rightarrow> real \<Rightarrow> real \<Rightarrow> error + atoms" where
  "bulk_hcp name a c = make_atoms name hcp_basis (hcp_cell a c)"

text \<open>
  Modelled from the spec: \<^verbatim>\<open>Atoms.repeat\<close> is missing. Section 4.2: the offsets
  \<open>(i, j, k)\<close> run outer to inner with the basis atom innermost, each atom is shifted by
  \<open>vecmat (i, j, k) cell\<close>, and row i of the cell is scaled by the i-th count. A count
  below one gives an empty range.
\<close>

definition repeat :: "atoms \<Rightarrow> int \<times> int \<times> int \<Rightarrow> atoms" where
  "repeat atoms sz =
     (case sz of (nx, ny, nz) \<Rightarrow>
      (case cell atoms of (a, b, c) \<Rightarrow>
        \<lparr>positions =
           concat (map (\<lambda>i. concat (map (\<lambda>j. concat (map (\<lambda>k.
              map (\<lambda>p. vadd p (vecmat (real i, real j, real k) (a, b, c))) (positions atoms))
            [0..<nat nz])) [0..<nat ny])) [0..<nat nx]),
         numbers =
           concat (map (\<lambda>i. concat (map (\<lambda>j. concat (map (\<lambda>k. numbers atoms)
            [0..<nat nz])) [0..<nat ny])) [0..<nat nx]),
         cell = (smul (real_of_int nx) a, smul (real_of_int ny) b, smul (real_of_int nz) c),
         pbc = pbc atoms\<rparr>))"

text \<open>
  Modelled from the spec: \<^verbatim>\<open>Atoms.get_scaled_positions\<close> is missing. Section 4.3,
  check 1: the fractional coordinate of every atom relative to the cell of the atoms
  object, by solving \<open>position = fractional \<cdot> cell\<close>. The library call does two more
  things, both modelled here. Before the solve it completes a cell that has zero rows
  (\<open>complete_cell\<close>). After the solve, with its default \<^verbatim>\<open>wrap=True\<close>, it reduces the
  component along every periodic axis modulo 1 (\<open>wrap\<close>), into the interval from 0
  (included) to 1 (excluded).
\<close>

text \<open>The cross product and the unit vector along a vector, for the completion.\<close>

fun cross :: "vec3 \<Rightarrow> vec3 \<Rightarrow> vec3" where
  "cross (x1, y1, z1) (x2, y2, z2) = (y1 * z2 - z1 * y2, z1 * x2 - x1 * z2, x1 * y2 - y1 * x2)"

definition unit_vector :: "vec3 \<Rightarrow> vec3" where
  "unit_vector v = smul (1 / norm3 v) v"

text \<open>
  Modelled from the spec: the completion of a cell is missing, and the spec leaves it to
  the library. Beside one nonzero row the library takes the two other rows from a singular value decomposition, which fixes them
  up to a rotation about that row only: they are unit vectors, orthogonal to the row and
  to each other. \<open>orthonormal_pair\<close> is one such pair.
\<close>

definition orthonormal_pair :: "vec3 \<Rightarrow> vec3 \<times> vec3" where
  "orthonormal_pair v =
     (let u = (case v of (x, y, z) \<Rightarrow> if x = 0 \<and> y = 0 then (1, 0, 0) else (0, 0, 1));
          q1 = unit_vector (cross v u);
          q2 = unit_vector (cross v q1)
      in (q1, q2))"

text \<open>
  Modelled from the spec: \<^verbatim>\<open>complete_cell\<close> is missing, and the spec leaves it to the
  library; the cells that \<open>generate_structure\<close> builds have no zero row. No row zero:
  the cell itself.
  All rows zero: the unit matrix. One row zero: the normalised cross product of the two
  others, in cyclic order. Two rows zero: an orthonormal pair, the first of them negated
  if the determinant is negative.
\<close>

definition orient :: "mat3 \<Rightarrow> mat3 \<Rightarrow> mat3" where
  "orient m flipped = (if det3 m < 0 then flipped else m)"

fun complete_cell :: "mat3 \<Rightarrow> mat3" where
  "complete_cell (a, b, c) =
     (let zero3 = (0, 0, 0) in
      if a \<noteq> zero3 \<and> b \<noteq> zero3 \<and> c \<noteq> zero3 then (a, b, c)
      else if a = zero3 \<and> b = zero3 \<and> c = zero3 then ((1, 0, 0), (0, 1, 0), (0, 0, 1))
      else if b = zero3 \<and> c = zero3 then
        (case orthonormal_pair a of (q1, q2) \<Rightarrow> orient (a, q1, q2) (a, smul (- 1) q1, q2))
      else if a = zero3 \<and> c = zero3 then
        (case orthonormal_pair b of (q1, q2) \<Rightarrow> orient (q1, b, q2) (smul (- 1) q1, b, q2))
      else if a = zero3 \<and> b = zero3 then
        (case orthonormal_pair c of (q1, q2) \<Rightarrow> orient (q1, q2, c) (smul (- 1) q1, q2, c))
      else if a = zero3 then (unit_vector (cross b c), b, c)
      else if b = zero3 then (a, unit_vector (cross c a), c)
      else (a, b, unit_vector (cross a b)))"

text \<open>The reduction modulo 1 along the periodic axes: \<open>frac x\<close> is \<open>x\<close> minus its floor.\<close>

fun wrap :: "bool \<times> bool \<times> bool \<Rightarrow> vec3 \<Rightarrow> vec3" where
  "wrap (px, py, pz) (x, y, z) =
     (if px then frac x else x, if py then frac y else y, if pz then frac z else z)"

fun solve_all :: "mat3 \<Rightarrow> vec3 list \<Rightarrow> error + vec3 list" where
  "solve_all m [] = Inr []"
| "solve_all m (p # ps) =
     (case solve3 m p of
        Inl e \<Rightarrow> Inl e
      | Inr f \<Rightarrow> (case solve_all m ps of Inl e \<Rightarrow> Inl e | Inr fs \<Rightarrow> Inr (f # fs)))"

definition get_scaled_positions :: "atoms \<Rightarrow> error + vec3 list" where
  "get_scaled_positions atoms =
     (case solve_all (complete_cell (cell atoms)) (positions atoms) of
        Inl e \<Rightarrow> Inl e
      | Inr fractional \<Rightarrow> Inr (map (wrap (pbc atoms)) fractional))"

text \<open>
  Modelled from the spec: \<^verbatim>\<open>ase.geometry.cell_to_cellpar\<close> is missing. Section 4.3,
  check 2: the three lengths of the rows and the three angles between them in degrees, in
  the order a, b, c, alpha (between b and c), beta (between a and c), gamma (between a and b).
  The angle with an axis of length zero is not defined; it is given as 90 here, and
  \<open>validate_structure\<close> rejects such a cell by its length before it reads the angles.
\<close>

definition angle_deg :: "vec3 \<Rightarrow> vec3 \<Rightarrow> real" where
  "angle_deg u v =
     (let ll = norm3 u * norm3 v in
      if ll > 0 then 180 / pi * arccos (dot u v / ll) else 90)"

definition cell_to_cellpar :: "mat3 \<Rightarrow> real list" where
  "cell_to_cellpar m =
     (case m of (a, b, c) \<Rightarrow>
        [norm3 a, norm3 b, norm3 c, angle_deg b c, angle_deg a c, angle_deg a b])"

section \<open>The validators (\<^verbatim>\<open>validators.py\<close>)\<close>

text \<open>
  \<open>validate_input\<close>: the \<^verbatim>\<open>isinstance\<close> checks are the types of the arguments here
  (a string, a string, a number, a 3-tuple of integers, an optional number), so the first
  branch that can be taken is the lookup of the element.
\<close>

definition size_components :: "int \<times> int \<times> int \<Rightarrow> int list" where
  "size_components sz = (case sz of (nx, ny, nz) \<Rightarrow> [nx, ny, nz])"

definition validate_input ::
  "string \<Rightarrow> string \<Rightarrow> real \<Rightarrow> int \<times> int \<times> int \<Rightarrow> real option \<Rightarrow> error + unit" where
  "validate_input element structure_type lattice_constant sz c_over_a =
     (case ELEMENTS element of
        None \<Rightarrow> Inl (ValueError ''Unsupported element: {element}. Supported elements: {list(ELEMENTS.keys())}'')
      | Some element_props \<Rightarrow>
         (let st = lower structure_type in
          if st \<notin> set VALID_STRUCTURES then
            Inl (ValueError ''Invalid structure type: {structure_type}. Must be one of: {VALID_STRUCTURES}'')
          else if st \<notin> set (supported_structures element_props) then
            Inl (ValueError ''Structure type {structure_type} is not supported for element {element}'')
          else if lattice_constant \<le> 0 then
            Inl (ValueError ''Invalid lattice constant: {lattice_constant}. Must be positive'')
          else if list_ex (\<lambda>s. s \<le> 0) (size_components sz) then
            Inl (ValueError ''Invalid supercell size: {size}. All dimensions must be positive'')
          else if st = ''hcp'' then
            (case c_over_a of
               None \<Rightarrow>
                 (if hcp_parameters element_props = None then
                    Inl (ValueError ''No default c/a ratio for {element}. Please provide one.'')
                  else Inr ())
             | Some r \<Rightarrow>
                 (if r \<le> 0 then Inl (ValueError ''HCP structures require a positive c/a ratio'')
                  else Inr ()))
          else Inr ()))"

fun in_unit_interval :: "vec3 \<Rightarrow> bool" where
  "in_unit_interval (x, y, z) = (0 \<le> x \<and> x \<le> 1 \<and> 0 \<le> y \<and> y \<le> 1 \<and> 0 \<le> z \<and> z \<le> 1)"

text \<open>Lines 92 to 97 of \<^verbatim>\<open>validate_structure\<close>: the checks on the six cell parameters.\<close>

definition check_cellpar :: "real list \<Rightarrow> error + unit" where
  "check_cellpar cellpar =
     (if list_ex (\<lambda>l. l \<le> 0) (take 3 cellpar) then
        Inl (ValueError ''Invalid cell parameters: some lengths are zero or negative'')
      else if list_ex (\<lambda>x. \<bar>x\<bar> > 180) (drop 3 cellpar) then
        Inl (ValueError ''Invalid cell parameters: angles must be between 0 and 180 degrees'')
      else Inr ())"

definition validate_structure :: "atoms \<Rightarrow> error + unit" where
  "validate_structure atoms =
     (case get_scaled_positions atoms of
        Inl e \<Rightarrow> Inl e
      | Inr scaled_positions \<Rightarrow>
         (if \<not> list_all in_unit_interval scaled_positions then
            Inl (ValueError ''Some atoms are outside the unit cell'')
          else check_cellpar (cell_to_cellpar (cell atoms))))"

section \<open>The generator (\<^verbatim>\<open>generator.py\<close>)\<close>

text \<open>
  The returned dictionary and its \<^verbatim>\<open>metadata\<close>. The keys \<^verbatim>\<open>positions\<close>, \<^verbatim>\<open>numbers\<close>,
  \<^verbatim>\<open>cell\<close> and \<^verbatim>\<open>pbc\<close> are the fields \<open>sd_positions\<close> to \<open>sd_pbc\<close> (the atoms
  object has fields of the same names), the keys of the metadata the fields \<open>md_element\<close>
  to \<open>md_supercell_size\<close>.
\<close>

record metadata =
  md_element :: string
  md_structure_type :: string
  md_lattice_constant :: real
  md_c_over_a :: "real option"
  md_num_atoms :: nat
  md_supercell_size :: "int \<times> int \<times> int"

record structure_data =
  sd_positions :: "vec3 list"
  sd_numbers :: "nat list"
  sd_cell :: mat3
  sd_pbc :: "bool \<times> bool \<times> bool"
  sd_metadata :: metadata

text \<open>Lines 69 to 84: the base structure, by family.\<close>

definition base_structure :: "string \<Rightarrow> string \<Rightarrow> real \<Rightarrow> real option \<Rightarrow> error + atoms" where
  "base_structure element structure_type lattice_constant c_over_a =
     (if structure_type = ''hcp'' then
        (case c_over_a of
           None \<Rightarrow> Inl (ValueError ''c/a ratio is required for HCP structures'')
         | Some r \<Rightarrow> bulk_hcp element lattice_constant (lattice_constant * r))
      else if structure_type = ''fcc'' then bulk_fcc element lattice_constant
      else if structure_type = ''bcc'' then bulk_bcc element lattice_constant
      else Inl (ValueError ''Unknown structure: {structure_type}''))"

text \<open>
  Lines 55 to 64: the defaults. The lattice constant falls back on the element's table
  for the structure type, the c/a ratio (for hcp only) on the element's hcp parameters.
\<close>

definition resolve_c_over_a :: "element_properties \<Rightarrow> string \<Rightarrow> real option \<Rightarrow> real option" where
  "resolve_c_over_a element_props structure_type c_over_a =
     (if structure_type = ''hcp'' \<and> c_over_a = None then
        (case hcp_parameters element_props of
           None \<Rightarrow> c_over_a
         | Some params \<Rightarrow> params ''c_over_a'')
      else c_over_a)"

text \<open>
  \<open>generate_structure\<close>, lines 49 to 111. The \<^verbatim>\<open>except\<close> clause logs and raises the same
  exception again, so an error of the \<^verbatim>\<open>try\<close> block is the error of the call.
\<close>

definition generate_structure ::
  "string \<Rightarrow> string \<Rightarrow> real option \<Rightarrow> int \<times> int \<times> int \<Rightarrow> real option \<Rightarrow> error + structure_data" where
  "generate_structure element structure_type0 lattice_constant0 sz c_over_a0 =
     (let structure_type = lower structure_type0 in
      case ELEMENTS element of
        None \<Rightarrow> Inl (KeyError element)
      | Some element_props \<Rightarrow>
         (case (case lattice_constant0 of
                  None \<Rightarrow> lattice_constants element_props structure_type
                | Some a \<Rightarrow> Some a) of
            None \<Rightarrow> Inl (ValueError ''No default lattice constant for {element} {structure_type}. Please provide one.'')
          | Some lattice_constant \<Rightarrow>
             (let c_over_a = resolve_c_over_a element_props structure_type c_over_a0 in
              case validate_input element structure_type lattice_constant sz c_over_a of
                Inl e \<Rightarrow> Inl e
              | Inr _ \<Rightarrow>
                 (case base_structure element structure_type lattice_constant c_over_a of
                    Inl e \<Rightarrow> Inl e
                  | Inr unit_atoms \<Rightarrow>
                     (let atoms = repeat unit_atoms sz in
                      case validate_structure atoms of
                        Inl e \<Rightarrow> Inl e
                      | Inr _ \<Rightarrow>
                         Inr \<lparr>sd_positions = positions atoms,
                              sd_numbers = numbers atoms,
                              sd_cell = cell atoms,
                              sd_pbc = pbc atoms,
                              sd_metadata =
                                \<lparr>md_element = element,
                                 md_structure_type = structure_type,
                                 md_lattice_constant = lattice_constant,
                                 md_c_over_a = (if structure_type = ''hcp'' then c_over_a else None),
                                 md_num_atoms = length (positions atoms),
                                 md_supercell_size = sz\<rparr>\<rparr>)))))"

text \<open>\<^verbatim>\<open>common_structures.get_c_over_a\<close>: the default c/a ratio of a table entry, if any.\<close>

definition get_c_over_a :: "element_properties \<Rightarrow> real option" where
  "get_c_over_a element_props =
     (case hcp_parameters element_props of
        None \<Rightarrow> None
      | Some params \<Rightarrow> params ''c_over_a'')"

section \<open>Notions used in the statements\<close>

text \<open>
  The c/a ratio read back from a cell, as \<^verbatim>\<open>test_hcp_structure\<close> computes it: the norm of
  row 2 over the norm of row 0.
\<close>

definition cell_c_over_a :: "mat3 \<Rightarrow> real" where
  "cell_c_over_a m = (case m of (a, b, c) \<Rightarrow> norm3 c / norm3 a)"

text \<open>The cell of a repeated structure: row i scaled by the i-th count.\<close>

definition scale_rows :: "int \<times> int \<times> int \<Rightarrow> mat3 \<Rightarrow> mat3" where
  "scale_rows sz m = (case sz of (nx, ny, nz) \<Rightarrow> case m of (a, b, c) \<Rightarrow>
     (smul (real_of_int nx) a, smul (real_of_int ny) b, smul (real_of_int nz) c))"

text \<open>The basis count of a family, as the specification's atom count law gives it.\<close>

definition basis_count :: "string \<Rightarrow> nat" where
  "basis_count family =
     (if family = ''fcc'' then 4 else if family = ''bcc'' then 2 else if family = ''hcp'' then 2 else 0)"

section \<open>Auxiliary facts\<close>

subsection \<open>The linear solve\<close>

lemma solve3_sound:
  assumes "solve3 m p = Inr f"
  shows "det3 m \<noteq> 0 \<and> vecmat f m = p"
proof -
  obtain a1 a2 a3 b1 b2 b3 c1 c2 c3 where m: "m = ((a1,a2,a3),(b1,b2,b3),(c1,c2,c3))"
    by (metis prod_cases3)
  obtain p1 p2 p3 where p: "p = (p1,p2,p3)" by (metis prod_cases3)
  define d where "d = det3 m"
  have d0: "d \<noteq> 0" using assms unfolding d_def m p by (auto simp: Let_def split: if_splits)
  let ?p = "(p1, p2, p3)" and ?a = "(a1, a2, a3)" and ?b = "(b1, b2, b3)" and ?c = "(c1, c2, c3)"
  have f: "f = (det3 (?p, ?b, ?c) / d, det3 (?a, ?p, ?c) / d, det3 (?a, ?b, ?p) / d)"
    using assms d0 unfolding d_def m p by (auto simp: Let_def split: if_splits)
  have e1: "det3 (?p, ?b, ?c) * a1 + det3 (?a, ?p, ?c) * b1 + det3 (?a, ?b, ?p) * c1 = d * p1"
    unfolding d_def m by (simp add: algebra_simps)
  have e2: "det3 (?p, ?b, ?c) * a2 + det3 (?a, ?p, ?c) * b2 + det3 (?a, ?b, ?p) * c2 = d * p2"
    unfolding d_def m by (simp add: algebra_simps)
  have e3: "det3 (?p, ?b, ?c) * a3 + det3 (?a, ?p, ?c) * b3 + det3 (?a, ?b, ?p) * c3 = d * p3"
    unfolding d_def m by (simp add: algebra_simps)
  have g: "x / d * w + (y / d * q + z / d * r) = t" if "x * w + y * q + z * r = d * t" for x y z w q r t :: real
    using that d0 by (simp add: field_simps)
  have "vecmat f m = p"
    unfolding f m p using g [OF e1] g [OF e2] g [OF e3] by (simp del: det3.simps)
  then show ?thesis using d0 d_def by simp
qed

lemma solve_all_sound:
  "solve_all m ps = Inr fs \<Longrightarrow> ps = map (\<lambda>f. vecmat f m) fs"
proof (induction ps arbitrary: fs)
  case Nil
  then show ?case by simp
next
  case (Cons p ps)
  then show ?case
    by (auto simp del: solve3.simps vecmat.simps split: sum.splits dest: solve3_sound)
qed

lemma solve_all_total: "det3 m \<noteq> 0 \<Longrightarrow> \<exists>fs. solve_all m ps = Inr fs"
proof (induction ps)
  case Nil
  then show ?case by simp
next
  case (Cons p ps)
  then show ?case by (cases m) (auto simp: Let_def)
qed

lemma solve_all_Inl: "solve_all m ps = Inl e \<Longrightarrow> e = LinAlgError"
proof (induction ps)
  case Nil
  then show ?case by simp
next
  case (Cons p ps)
  then show ?case by (cases m) (auto simp: Let_def split: sum.splits if_splits)
qed

subsection \<open>Repeating a structure\<close>

lemma cell_repeat: "cell (repeat ua sz) = scale_rows sz (cell ua)"
  by (simp add: repeat_def scale_rows_def split: prod.splits)

lemma det3_scale_rows: "det3 (scale_rows (nx, ny, nz) m) = real_of_int nx * real_of_int ny * real_of_int nz * det3 m"
proof -
  obtain a1 a2 a3 b1 b2 b3 c1 c2 c3 where m: "m = ((a1,a2,a3),(b1,b2,b3),(c1,c2,c3))"
    by (metis prod_cases3)
  show ?thesis unfolding m by (simp add: scale_rows_def algebra_simps)
qed

lemma length_concat_const:
  "(\<And>x. x \<in> set xs \<Longrightarrow> length (f x) = n) \<Longrightarrow> length (concat (map f xs)) = length xs * n"
  by (induction xs) simp_all

lemma length_positions_repeat:
  "length (positions (repeat ua (nx, ny, nz))) = nat nx * nat ny * nat nz * length (positions ua)"
  by (simp add: repeat_def length_concat_const split: prod.splits)

lemma length_numbers_repeat:
  "length (numbers (repeat ua (nx, ny, nz))) = nat nx * nat ny * nat nz * length (numbers ua)"
  by (simp add: repeat_def length_concat_const split: prod.splits)

lemma set_numbers_repeat:
  "set (numbers (repeat ua sz)) \<subseteq> set (numbers ua)"
  by (auto simp: repeat_def split: prod.splits)

subsection \<open>Lengths and angles of a cell\<close>

lemma cs3: "(dot u v)\<^sup>2 \<le> dot u u * dot v v"
proof -
  obtain a1 a2 a3 where u: "u = (a1,a2,a3)" by (metis prod_cases3)
  obtain b1 b2 b3 where v: "v = (b1,b2,b3)" by (metis prod_cases3)
  have "dot u u * dot v v - (dot u v)\<^sup>2 = (a1*b2 - a2*b1)\<^sup>2 + (a1*b3 - a3*b1)\<^sup>2 + (a2*b3 - a3*b2)\<^sup>2"
    unfolding u v by (simp add: power2_eq_square algebra_simps)
  moreover have "0 \<le> (a1*b2 - a2*b1)\<^sup>2 + (a1*b3 - a3*b1)\<^sup>2 + (a2*b3 - a3*b2)\<^sup>2" by simp
  ultimately show ?thesis by linarith
qed

lemma dot_self_nonneg: "0 \<le> dot u u"
  by (cases u) simp

lemma norm3_nonneg: "0 \<le> norm3 u"
  by (simp add: norm3_def dot_self_nonneg)

lemma abs_dot_le: "\<bar>dot u v\<bar> \<le> norm3 u * norm3 v"
proof -
  have "(dot u v)\<^sup>2 \<le> (norm3 u * norm3 v)\<^sup>2"
    using cs3 [of u v] by (simp add: norm3_def power_mult_distrib dot_self_nonneg)
  then show ?thesis
    using norm3_nonneg [of u] norm3_nonneg [of v]
    by (metis abs_le_square_iff abs_of_nonneg mult_nonneg_nonneg)
qed

lemma angle_deg_bounds: "0 \<le> angle_deg u v \<and> angle_deg u v \<le> 180"
proof (cases "norm3 u * norm3 v > 0")
  case False
  then show ?thesis by (simp add: angle_deg_def)
next
  case True
  define x where "x = dot u v / (norm3 u * norm3 v)"
  have "\<bar>x\<bar> \<le> 1"
    using abs_dot_le [of u v] True by (simp add: x_def field_simps)
  then have x: "- 1 \<le> x" "x \<le> 1" by linarith+
  have a0: "0 \<le> arccos x" and a1: "arccos x \<le> pi"
    using arccos_lbound [OF x] arccos_ubound [OF x] by simp_all
  have eq: "angle_deg u v = 180 / pi * arccos x"
    using True by (simp add: angle_deg_def x_def)
  have "180 / pi * arccos x \<le> 180 / pi * pi"
    using a1 by (intro mult_left_mono) simp_all
  then have "180 / pi * arccos x \<le> 180" by simp
  moreover have "0 \<le> 180 / pi * arccos x" using a0 by simp
  ultimately show ?thesis unfolding eq by simp
qed

lemma cell_angles_within_180:
  "\<not> list_ex (\<lambda>x. \<bar>x\<bar> > 180) (drop 3 (cell_to_cellpar m))"
proof -
  obtain a b c where m: "m = (a, b, c)" by (metis prod_cases3)
  have "\<not> \<bar>angle_deg b c\<bar> > 180" "\<not> \<bar>angle_deg a c\<bar> > 180" "\<not> \<bar>angle_deg a b\<bar> > 180"
    using angle_deg_bounds [of b c] angle_deg_bounds [of a c] angle_deg_bounds [of a b] by linarith+
  then show ?thesis by (simp add: m cell_to_cellpar_def)
qed

lemma norm3_axis_x: "norm3 (x, 0, 0) = \<bar>x\<bar>" and norm3_axis_z: "norm3 (0, 0, z) = \<bar>z\<bar>"
  by (simp_all add: norm3_def)

lemma norm3_pos_iff: "0 < norm3 u \<longleftrightarrow> u \<noteq> (0, 0, 0)"
proof (cases u)
  case (fields x y z)
  have "0 < x * x + y * y + z * z \<longleftrightarrow> \<not> (x = 0 \<and> y = 0 \<and> z = 0)"
    by (smt (verit) mult_eq_0_iff zero_le_square sum_squares_eq_zero_iff add_nonneg_eq_0_iff)
  then show ?thesis by (simp add: fields norm3_def)
qed

lemma det3_rows_nonzero:
  assumes "det3 (a, b, c) \<noteq> 0"
  shows "a \<noteq> (0, 0, 0)" "b \<noteq> (0, 0, 0)" "c \<noteq> (0, 0, 0)"
  using assms by (cases a; cases b; cases c; auto)+

subsection \<open>The completion of a cell\<close>

lemma dot_cross_left: "dot (cross a b) a = 0" and dot_cross_right: "dot (cross a b) b = 0"
  by (cases a; cases b; simp add: algebra_simps)+

lemma dot_smul_left: "dot (smul s a) b = s * dot a b"
  by (cases a; cases b) (simp add: algebra_simps)

lemma dot_commute: "dot a b = dot b a"
  by (cases a; cases b) (simp add: algebra_simps)

lemma norm3_unit_vector: "w \<noteq> (0, 0, 0) \<Longrightarrow> norm3 (unit_vector w) = 1"
proof -
  assume w: "w \<noteq> (0, 0, 0)"
  then have p: "0 < norm3 w" by (simp add: norm3_pos_iff)
  have "dot (unit_vector w) (unit_vector w) = (1 / norm3 w) * (1 / norm3 w) * dot w w"
    by (simp add: unit_vector_def dot_smul_left dot_commute [of w "smul s w" for s])
  also have "dot w w = norm3 w * norm3 w"
    by (simp add: norm3_def dot_self_nonneg)
  finally have "dot (unit_vector w) (unit_vector w) = 1" using p by simp
  then show ?thesis by (simp add: norm3_def)
qed

lemma cross_nonzero:
  assumes "v \<noteq> (0, 0, 0)"
  shows "cross v (case v of (x, y, z) \<Rightarrow> if x = 0 \<and> y = 0 then (1, 0, 0) else (0, 0, 1)) \<noteq> (0, 0, 0)"
  using assms by (cases v) auto

lemma unit_vector_nonzero: "w \<noteq> (0, 0, 0) \<Longrightarrow> unit_vector w \<noteq> (0, 0, 0)"
  using norm3_unit_vector [of w] norm3_pos_iff [of "unit_vector w"] by auto

lemma cross_orthogonal_nonzero:
  assumes "v \<noteq> (0, 0, 0)" "q \<noteq> (0, 0, 0)" "dot q v = 0"
  shows "cross v q \<noteq> (0, 0, 0)"
proof
  assume c: "cross v q = (0, 0, 0)"
  have "dot (cross v q) (cross v q) = dot v v * dot q q - (dot q v)\<^sup>2"
    by (cases v; cases q) (simp add: power2_eq_square algebra_simps)
  with c assms(3) have "dot v v * dot q q = 0" by simp
  moreover have "0 < dot v v" "0 < dot q q"
    using assms(1,2) norm3_pos_iff [of v] norm3_pos_iff [of q] by (simp_all add: norm3_def)
  ultimately show False by simp
qed

lemma orthonormal_pair_ok:
  assumes v: "v \<noteq> (0, 0, 0)" and q: "orthonormal_pair v = (q1, q2)"
  shows "norm3 q1 = 1 \<and> norm3 q2 = 1 \<and> dot q1 v = 0 \<and> dot q2 v = 0 \<and> dot q1 q2 = 0"
proof -
  define u :: vec3 where "u = (case v of (x, y, z) \<Rightarrow> if x = 0 \<and> y = 0 then (1, 0, 0) else (0, 0, 1))"
  have q1: "q1 = unit_vector (cross v u)" and q2: "q2 = unit_vector (cross v q1)"
    using q by (auto simp: orthonormal_pair_def Let_def u_def)
  have c1: "cross v u \<noteq> (0, 0, 0)" unfolding u_def by (rule cross_nonzero [OF v])
  have n1: "norm3 q1 = 1" unfolding q1 by (rule norm3_unit_vector [OF c1])
  have o1: "dot q1 v = 0" by (simp add: q1 unit_vector_def dot_smul_left dot_cross_left)
  have q1nz: "q1 \<noteq> (0, 0, 0)" unfolding q1 by (rule unit_vector_nonzero [OF c1])
  have c2: "cross v q1 \<noteq> (0, 0, 0)" by (rule cross_orthogonal_nonzero [OF v q1nz o1])
  have n2: "norm3 q2 = 1" unfolding q2 by (rule norm3_unit_vector [OF c2])
  have o2: "dot q2 v = 0" by (simp add: q2 unit_vector_def dot_smul_left dot_cross_left)
  have o3: "dot q1 q2 = 0"
    by (simp add: q2 unit_vector_def dot_commute [of q1] dot_smul_left dot_cross_right)
  show ?thesis using n1 n2 o1 o2 o3 by simp
qed

subsection \<open>Periodic atoms in a regular cell pass \<open>validate_structure\<close>\<close>

lemma validate_structure_ok:
  assumes d: "det3 (cell atoms) \<noteq> 0"
    and s: "get_scaled_positions atoms = Inr fs"
    and u: "list_all in_unit_interval fs"
  shows "validate_structure atoms = Inr ()"
proof -
  obtain a b c where m: "cell atoms = (a, b, c)" by (metis prod_cases3)
  have len: "0 < norm3 a" "0 < norm3 b" "0 < norm3 c"
    using det3_rows_nonzero [of a b c] d by (simp_all add: m norm3_pos_iff)
  have ang: "\<not> \<bar>angle_deg b c\<bar> > 180" "\<not> \<bar>angle_deg a c\<bar> > 180" "\<not> \<bar>angle_deg a b\<bar> > 180"
    using angle_deg_bounds [of b c] angle_deg_bounds [of a c] angle_deg_bounds [of a b] by linarith+
  show ?thesis
    using s u len ang by (simp add: validate_structure_def check_cellpar_def m cell_to_cellpar_def not_le [symmetric] del: not_le)
qed

lemma complete_cell_nonsingular: "det3 m \<noteq> 0 \<Longrightarrow> complete_cell m = m"
proof -
  assume d: "det3 m \<noteq> 0"
  obtain a b c where m: "m = (a, b, c)" by (metis prod_cases3)
  from det3_rows_nonzero [of a b c] d show ?thesis by (simp add: m)
qed

lemma frac_in_unit: "0 \<le> frac (x::real) \<and> frac x \<le> 1"
  using frac_lt_1 [of x] by (simp add: less_imp_le)

lemma wrap_periodic_in_unit: "in_unit_interval (wrap (True, True, True) f)"
  by (cases f) (simp add: frac_in_unit)

lemma get_scaled_positions_Inl: "get_scaled_positions atoms = Inl e \<Longrightarrow> e = LinAlgError"
  by (auto simp: get_scaled_positions_def split: sum.splits dest: solve_all_Inl)

lemma get_scaled_positions_nonsingular:
  assumes "det3 (cell atoms) \<noteq> 0"
  shows "\<exists>fs. positions atoms = map (\<lambda>f. vecmat f (cell atoms)) fs \<and>
            get_scaled_positions atoms = Inr (map (wrap (pbc atoms)) fs)"
proof -
  from solve_all_total [OF assms] obtain fs where fs: "solve_all (cell atoms) (positions atoms) = Inr fs"
    by blast
  have "positions atoms = map (\<lambda>f. vecmat f (cell atoms)) fs"
    using fs by (rule solve_all_sound)
  moreover have "get_scaled_positions atoms = Inr (map (wrap (pbc atoms)) fs)"
    by (simp add: get_scaled_positions_def complete_cell_nonsingular [OF assms] fs)
  ultimately show ?thesis by blast
qed

lemma validate_structure_periodic:
  assumes d: "det3 (cell atoms) \<noteq> 0" and p: "pbc atoms = (True, True, True)"
  shows "validate_structure atoms = Inr ()"
proof -
  from get_scaled_positions_nonsingular [OF d] obtain fs where
    s: "get_scaled_positions atoms = Inr (map (wrap (pbc atoms)) fs)" by blast
  have "list_all in_unit_interval (map (wrap (pbc atoms)) fs)"
    by (simp add: p list_all_iff wrap_periodic_in_unit)
  with d s show ?thesis by (rule validate_structure_ok)
qed

lemma pbc_repeat: "pbc (repeat ua sz) = pbc ua"
  by (simp add: repeat_def split: prod.splits)

lemma validate_repeat:
  assumes d: "det3 (cell ua) \<noteq> 0"
    and p: "pbc ua = (True, True, True)"
    and n: "0 < nx" "0 < ny" "0 < nz"
  shows "validate_structure (repeat ua (nx, ny, nz)) = Inr ()"
proof -
  have "det3 (cell (repeat ua (nx, ny, nz))) \<noteq> 0"
    using d n by (simp add: cell_repeat det3_scale_rows)
  then show ?thesis by (rule validate_structure_periodic) (simp add: pbc_repeat p)
qed

subsection \<open>The shape of a call of \<open>generate_structure\<close>\<close>

lemma generate_structure_Inr:
  assumes "generate_structure e st lc sz coa = Inr r"
  obtains props a ua where
    "ELEMENTS e = Some props"
    "(case lc of None \<Rightarrow> lattice_constants props (lower st) | Some a \<Rightarrow> Some a) = Some a"
    "validate_input e (lower st) a sz (resolve_c_over_a props (lower st) coa) = Inr ()"
    "base_structure e (lower st) a (resolve_c_over_a props (lower st) coa) = Inr ua"
    "validate_structure (repeat ua sz) = Inr ()"
    "r = \<lparr>sd_positions = positions (repeat ua sz),
          sd_numbers = numbers (repeat ua sz),
          sd_cell = cell (repeat ua sz),
          sd_pbc = pbc (repeat ua sz),
          sd_metadata =
            \<lparr>md_element = e,
             md_structure_type = lower st,
             md_lattice_constant = a,
             md_c_over_a = (if lower st = ''hcp'' then resolve_c_over_a props (lower st) coa else None),
             md_num_atoms = length (positions (repeat ua sz)),
             md_supercell_size = sz\<rparr>\<rparr>"
  using assms unfolding generate_structure_def Let_def
  by (simp split: option.splits sum.splits)

lemma generate_structure_Inr_intro:
  assumes "ELEMENTS e = Some props"
    "(case lc of None \<Rightarrow> lattice_constants props (lower st) | Some a \<Rightarrow> Some a) = Some a"
    "validate_input e (lower st) a sz (resolve_c_over_a props (lower st) coa) = Inr ()"
    "base_structure e (lower st) a (resolve_c_over_a props (lower st) coa) = Inr ua"
    "validate_structure (repeat ua sz) = Inr ()"
  shows "generate_structure e st lc sz coa =
     Inr \<lparr>sd_positions = positions (repeat ua sz),
          sd_numbers = numbers (repeat ua sz),
          sd_cell = cell (repeat ua sz),
          sd_pbc = pbc (repeat ua sz),
          sd_metadata =
            \<lparr>md_element = e,
             md_structure_type = lower st,
             md_lattice_constant = a,
             md_c_over_a = (if lower st = ''hcp'' then resolve_c_over_a props (lower st) coa else None),
             md_num_atoms = length (positions (repeat ua sz)),
             md_supercell_size = sz\<rparr>\<rparr>"
  using assms unfolding generate_structure_def Let_def by simp

lemma registry_atomic_numbers:
  "ELEMENTS e = Some props \<Longrightarrow> atomic_numbers e = Some (atomic_number props)"
  unfolding ELEMENTS_def atomic_numbers_def
  by (auto split: if_splits)

lemma validate_input_sizes:
  "validate_input e st a (nx, ny, nz) coa = Inr u \<Longrightarrow> 0 < a \<and> 0 < nx \<and> 0 < ny \<and> 0 < nz"
  unfolding validate_input_def Let_def size_components_def
  by (simp split: option.splits if_splits)

subsection \<open>The base structures\<close>

lemma make_atoms_Inr:
  "make_atoms e basis m = Inr ua \<Longrightarrow>
     \<exists>z. atomic_numbers e = Some z \<and>
         ua = \<lparr>positions = map (\<lambda>f. vecmat f m) basis, numbers = replicate (length basis) z,
               cell = m, pbc = (True, True, True)\<rparr>"
  by (auto simp: make_atoms_def split: option.splits)

lemma base_structure_Inr:
  assumes "base_structure e s a coa = Inr ua"
  obtains z basis m where
    "atomic_numbers e = Some z"
    "ua = \<lparr>positions = map (\<lambda>f. vecmat f m) basis, numbers = replicate (length basis) z,
           cell = m, pbc = (True, True, True)\<rparr>"
    "length basis = basis_count s"
    "(s = ''fcc'' \<and> basis = fcc_basis \<and> m = cubic_cell a) \<or>
     (s = ''bcc'' \<and> basis = bcc_basis \<and> m = cubic_cell a) \<or>
     (s = ''hcp'' \<and> basis = hcp_basis \<and> (\<exists>r. coa = Some r \<and> m = hcp_cell a (a * r)))"
proof (cases "s = ''hcp''")
  case True
  with assms obtain r where r: "coa = Some r" and b: "make_atoms e hcp_basis (hcp_cell a (a * r)) = Inr ua"
    by (auto simp: base_structure_def bulk_hcp_def split: option.splits)
  from make_atoms_Inr [OF b] obtain z where "atomic_numbers e = Some z"
    "ua = \<lparr>positions = map (\<lambda>f. vecmat f (hcp_cell a (a * r))) hcp_basis,
           numbers = replicate (length hcp_basis) z, cell = hcp_cell a (a * r), pbc = (True, True, True)\<rparr>"
    by blast
  then show ?thesis using True r
    by (intro that [of z "hcp_cell a (a * r)" hcp_basis]) (simp_all add: basis_count_def hcp_basis_def)
next
  case False
  note nh = this
  show ?thesis
  proof (cases "s = ''fcc''")
    case True
    with assms have b: "make_atoms e fcc_basis (cubic_cell a) = Inr ua"
      by (simp add: base_structure_def bulk_fcc_def)
    from make_atoms_Inr [OF b] obtain z where "atomic_numbers e = Some z"
      "ua = \<lparr>positions = map (\<lambda>f. vecmat f (cubic_cell a)) fcc_basis,
             numbers = replicate (length fcc_basis) z, cell = cubic_cell a, pbc = (True, True, True)\<rparr>"
      by blast
    then show ?thesis using True
      by (intro that [of z "cubic_cell a" fcc_basis]) (simp_all add: basis_count_def fcc_basis_def)
  next
    case False
    with nh assms have s: "s = ''bcc''" and b: "make_atoms e bcc_basis (cubic_cell a) = Inr ua"
      by (auto simp: base_structure_def bulk_bcc_def split: if_splits)
    from make_atoms_Inr [OF b] obtain z where "atomic_numbers e = Some z"
      "ua = \<lparr>positions = map (\<lambda>f. vecmat f (cubic_cell a)) bcc_basis,
             numbers = replicate (length bcc_basis) z, cell = cubic_cell a, pbc = (True, True, True)\<rparr>"
      by blast
    then show ?thesis using s
      by (intro that [of z "cubic_cell a" bcc_basis]) (simp_all add: basis_count_def bcc_basis_def)
  qed
qed

lemma det3_cubic_cell: "det3 (cubic_cell a) = a * a * a"
  by (simp add: cubic_cell_def)

lemma det3_hcp_cell: "det3 (hcp_cell a c) = a * a * c * (sqrt 3 / 2)"
  by (simp add: hcp_cell_def)

lemma base_structure_validates:
  assumes b: "base_structure e s a coa = Inr ua"
    and a: "0 < a" and r: "\<And>r. coa = Some r \<Longrightarrow> s = ''hcp'' \<Longrightarrow> 0 < r"
    and n: "0 < nx" "0 < ny" "0 < nz"
  shows "validate_structure (repeat ua (nx, ny, nz)) = Inr ()"
proof -
  from b obtain z basis m where
    ua: "ua = \<lparr>positions = map (\<lambda>f. vecmat f m) basis, numbers = replicate (length basis) z,
           cell = m, pbc = (True, True, True)\<rparr>"
    and fam: "(s = ''fcc'' \<and> basis = fcc_basis \<and> m = cubic_cell a) \<or>
     (s = ''bcc'' \<and> basis = bcc_basis \<and> m = cubic_cell a) \<or>
     (s = ''hcp'' \<and> basis = hcp_basis \<and> (\<exists>r. coa = Some r \<and> m = hcp_cell a (a * r)))"
    by (rule base_structure_Inr)
  have d: "det3 (cell ua) \<noteq> 0"
    using fam a r by (auto simp: ua det3_cubic_cell det3_hcp_cell)
  have p: "pbc ua = (True, True, True)" by (simp add: ua)
  show ?thesis by (rule validate_repeat [OF d p n])
qed

subsection \<open>Valid requests succeed\<close>

lemma lower_valid: "s \<in> set VALID_STRUCTURES \<Longrightarrow> lower s = s"
  by (auto simp: VALID_STRUCTURES_def lower_def lower_char_def)

lemma base_structure_total:
  assumes z: "atomic_numbers e = Some z" and s: "s \<in> set VALID_STRUCTURES"
    and c: "s = ''hcp'' \<Longrightarrow> coa \<noteq> None"
  shows "\<exists>ua. base_structure e s a coa = Inr ua"
  using assms
  by (auto simp: VALID_STRUCTURES_def base_structure_def bulk_fcc_def bulk_bcc_def bulk_hcp_def make_atoms_def)

lemma generate_structure_succeeds:
  assumes e: "ELEMENTS e = Some props"
    and s: "lower st \<in> set VALID_STRUCTURES" "lower st \<in> set (supported_structures props)"
    and a: "(case lc of None \<Rightarrow> lattice_constants props (lower st) | Some a \<Rightarrow> Some a) = Some a" "0 < a"
    and n: "0 < nx" "0 < ny" "0 < nz"
    and c: "lower st = ''hcp'' \<Longrightarrow> resolve_c_over_a props (lower st) coa = Some ratio \<and> 0 < ratio"
  shows "\<exists>r. generate_structure e st lc (nx, ny, nz) coa = Inr r"
proof -
  let ?c = "resolve_c_over_a props (lower st) coa"
  have vi: "validate_input e (lower st) a (nx, ny, nz) ?c = Inr ()"
    using e s a n c
    by (auto simp: validate_input_def Let_def lower_valid size_components_def split: option.splits)
  have "\<exists>ua. base_structure e (lower st) a ?c = Inr ua"
    using registry_atomic_numbers [OF e] s(1) c by (intro base_structure_total) auto
  then obtain ua where b: "base_structure e (lower st) a ?c = Inr ua" ..
  have vs: "validate_structure (repeat ua (nx, ny, nz)) = Inr ()"
    using c by (intro base_structure_validates [OF b a(2) _ n]) auto
  show ?thesis
    using generate_structure_Inr_intro [OF e a(1) vi b vs] by blast
qed

lemma ELEMENTS_Cu: "ELEMENTS ''Cu'' = Some \<lparr>atomic_number = 29, supported_structures = [''fcc''],
               lattice_constants = map_of [(''fcc'', 361 / 100)], hcp_parameters = None\<rparr>"
  by (simp add: ELEMENTS_def)

lemma ELEMENTS_Ti: "ELEMENTS ''Ti'' = Some \<lparr>atomic_number = 22, supported_structures = [''hcp''],
               lattice_constants = map_of [(''hcp'', 295 / 100)],
               hcp_parameters = Some (map_of [(''c_over_a'', 1587 / 1000)])\<rparr>"
  by (simp add: ELEMENTS_def)

lemma lower_fcc: "lower ''fcc'' = ''fcc''" and lower_hcp: "lower ''hcp'' = ''hcp''"
  and lower_bcc: "lower ''bcc'' = ''bcc''" and lower_FCC: "lower ''FCC'' = ''fcc''"
  by (simp_all add: lower_def lower_char_def)

lemma Cu_fcc_succeeds:
  assumes "0 < nx" "0 < ny" "0 < nz"
  shows "\<exists>r. generate_structure ''Cu'' ''fcc'' None (nx, ny, nz) coa = Inr r"
  using generate_structure_succeeds [OF ELEMENTS_Cu, of "''fcc''" None "361 / 100" nx ny nz coa 0] assms
  by (simp add: lower_fcc VALID_STRUCTURES_def)

lemma Ti_hcp_succeeds:
  assumes "0 < nx" "0 < ny" "0 < nz"
  shows "\<exists>r. generate_structure ''Ti'' ''hcp'' None (nx, ny, nz) None = Inr r"
  using generate_structure_succeeds [OF ELEMENTS_Ti, of "''hcp''" None "295 / 100" nx ny nz None "1587 / 1000"] assms
  by (simp add: lower_hcp VALID_STRUCTURES_def resolve_c_over_a_def)

subsection \<open>What a returned record holds\<close>

lemma base_structure_non_hcp:
  "s \<noteq> ''hcp'' \<Longrightarrow> base_structure e s a coa = base_structure e s a None"
  by (simp add: base_structure_def)

lemma resolve_c_over_a_non_hcp: "s \<noteq> ''hcp'' \<Longrightarrow> resolve_c_over_a props s coa = coa"
  by (simp add: resolve_c_over_a_def)

lemma resolve_c_over_a_hcp:
  "resolve_c_over_a props ''hcp'' coa = (case coa of None \<Rightarrow> get_c_over_a props | Some x \<Rightarrow> Some x)"
  by (simp add: resolve_c_over_a_def get_c_over_a_def split: option.splits)

lemma generate_structure_metadata:
  assumes "generate_structure e st lc sz coa = Inr r"
  shows "md_element (sd_metadata r) = e \<and> md_structure_type (sd_metadata r) = lower st \<and>
         md_supercell_size (sd_metadata r) = sz \<and>
         (\<exists>props. ELEMENTS e = Some props \<and>
            (case lc of None \<Rightarrow> lattice_constants props (lower st) | Some a \<Rightarrow> Some a) =
              Some (md_lattice_constant (sd_metadata r)))"
  using assms by (rule generate_structure_Inr) simp

lemma generate_structure_lengths:
  assumes "generate_structure e st lc (nx, ny, nz) coa = Inr r"
  shows "lower st \<in> set VALID_STRUCTURES"
    and "0 < nx \<and> 0 < ny \<and> 0 < nz"
    and "length (sd_positions r) = nat nx * nat ny * nat nz * basis_count (lower st)"
    and "length (sd_numbers r) = nat nx * nat ny * nat nz * basis_count (lower st)"
    and "md_num_atoms (sd_metadata r) = length (sd_positions r)"
proof -
  from assms obtain props a ua where
    vi: "validate_input e (lower st) a (nx, ny, nz) (resolve_c_over_a props (lower st) coa) = Inr ()"
    and b: "base_structure e (lower st) a (resolve_c_over_a props (lower st) coa) = Inr ua"
    and r: "sd_positions r = positions (repeat ua (nx, ny, nz))"
       "sd_numbers r = numbers (repeat ua (nx, ny, nz))"
       "md_num_atoms (sd_metadata r) = length (positions (repeat ua (nx, ny, nz)))"
    by (rule generate_structure_Inr) simp
  from b obtain z basis m where
    ua: "ua = \<lparr>positions = map (\<lambda>f. vecmat f m) basis, numbers = replicate (length basis) z,
           cell = m, pbc = (True, True, True)\<rparr>"
    and len: "length basis = basis_count (lower st)"
    and fam: "(lower st = ''fcc'' \<and> basis = fcc_basis \<and> m = cubic_cell a) \<or>
     (lower st = ''bcc'' \<and> basis = bcc_basis \<and> m = cubic_cell a) \<or>
     (lower st = ''hcp'' \<and> basis = hcp_basis \<and>
        (\<exists>r. resolve_c_over_a props (lower st) coa = Some r \<and> m = hcp_cell a (a * r)))"
    by (rule base_structure_Inr)
  show "0 < nx \<and> 0 < ny \<and> 0 < nz" using validate_input_sizes [OF vi] by simp
  show "lower st \<in> set VALID_STRUCTURES" using fam by (auto simp: VALID_STRUCTURES_def)
  show "length (sd_positions r) = nat nx * nat ny * nat nz * basis_count (lower st)"
    by (simp add: r(1) length_positions_repeat ua len)
  show "length (sd_numbers r) = nat nx * nat ny * nat nz * basis_count (lower st)"
    by (simp add: r(2) length_numbers_repeat ua len)
  show "md_num_atoms (sd_metadata r) = length (sd_positions r)"
    by (simp add: r(1,3))
qed

lemma validate_input_Inl:
  "validate_input e s a sz c = Inl err \<Longrightarrow> \<exists>msg. err = ValueError msg"
  unfolding validate_input_def Let_def
  by (auto split: option.splits if_splits)

lemma validate_input_bad_size:
  assumes "nx \<le> 0 \<or> ny \<le> 0 \<or> nz \<le> 0"
  shows "\<exists>err. validate_input e s a (nx, ny, nz) c = Inl err"
proof (cases "validate_input e s a (nx, ny, nz) c")
  case (Inl err)
  then show ?thesis by blast
next
  case (Inr u)
  from validate_input_sizes [OF Inr] assms show ?thesis by linarith
qed

lemma generate_structure_hcp_cell:
  assumes "generate_structure e st lc (nx, ny, nz) coa = Inr r" and "lower st = ''hcp''"
  obtains props a ratio where
    "ELEMENTS e = Some props"
    "(case coa of None \<Rightarrow> get_c_over_a props | Some x \<Rightarrow> Some x) = Some ratio"
    "md_c_over_a (sd_metadata r) = Some ratio"
    "sd_cell r = scale_rows (nx, ny, nz) (hcp_cell a (a * ratio))"
    "0 < a" "0 < ratio" "0 < nx" "0 < nz"
proof -
  from assms(1) obtain props a ua where
    e: "ELEMENTS e = Some props"
    and vi: "validate_input e (lower st) a (nx, ny, nz) (resolve_c_over_a props (lower st) coa) = Inr ()"
    and b: "base_structure e (lower st) a (resolve_c_over_a props (lower st) coa) = Inr ua"
    and r: "md_c_over_a (sd_metadata r) =
          (if lower st = ''hcp'' then resolve_c_over_a props (lower st) coa else None)"
       "sd_cell r = cell (repeat ua (nx, ny, nz))"
    by (rule generate_structure_Inr) simp
  from b assms(2) obtain ratio where
    ratio: "resolve_c_over_a props ''hcp'' coa = Some ratio"
    and ua: "bulk_hcp e a (a * ratio) = Inr ua"
    by (auto simp: base_structure_def split: option.splits)
  have m: "cell ua = hcp_cell a (a * ratio)"
    using ua by (auto simp: bulk_hcp_def make_atoms_def split: option.splits)
  have pos: "0 < a" "0 < nx" "0 < nz" using validate_input_sizes [OF vi] by simp_all
  have rpos: "0 < ratio"
    using vi ratio assms(2)
    by (auto simp: validate_input_def Let_def lower_hcp not_le split: option.splits if_splits)
  show ?thesis
    using e ratio r assms(2) m pos rpos
    by (intro that [of props ratio a]) (simp_all add: resolve_c_over_a_hcp cell_repeat)
qed

lemma cell_c_over_a_hcp:
  assumes "0 < a" "0 < ratio" "0 < nx" "0 < nz"
  shows "cell_c_over_a (scale_rows (nx, ny, nz) (hcp_cell a (a * ratio))) =
         ratio * (real_of_int nz / real_of_int nx)"
proof -
  have "cell_c_over_a (scale_rows (nx, ny, nz) (hcp_cell a (a * ratio))) =
        \<bar>real_of_int nz * (a * ratio)\<bar> / \<bar>real_of_int nx * a\<bar>"
    by (simp add: hcp_cell_def scale_rows_def cell_c_over_a_def norm3_axis_x norm3_axis_z)
  also have "\<dots> = (real_of_int nz * (a * ratio)) / (real_of_int nx * a)"
    using assms by (simp add: abs_mult)
  also have "\<dots> = ratio * (real_of_int nz / real_of_int nx)"
    using assms by simp
  finally show ?thesis .
qed

section \<open>The claims\<close>

text \<open>
  C1 (atom count law). Whenever \<open>generate_structure\<close> returns a record for a replication
  \<open>(nx, ny, nz)\<close>, the lowered structure type is one of fcc, bcc, hcp, the field
  \<open>num_atoms\<close> is \<open>basis_count \<times> nx \<times> ny \<times> nz\<close> with 4, 2 and 2 atoms per cell,
  and \<open>positions\<close> and \<open>numbers\<close> both have \<open>num_atoms\<close> entries.
\<close>

theorem atom_count_law:
  assumes "generate_structure e st lc (nx, ny, nz) coa = Inr r"
  shows "lower st \<in> set VALID_STRUCTURES \<and>
    int (md_num_atoms (sd_metadata r)) = int (basis_count (lower st)) * nx * ny * nz \<and>
    length (sd_positions r) = md_num_atoms (sd_metadata r) \<and>
    length (sd_numbers r) = md_num_atoms (sd_metadata r)"
proof -
  note l = generate_structure_lengths [OF assms]
  have "int (nat nx * nat ny * nat nz * basis_count (lower st)) =
        int (basis_count (lower st)) * nx * ny * nz"
    using l(2) by simp
  then have "int (md_num_atoms (sd_metadata r)) = int (basis_count (lower st)) * nx * ny * nz"
    by (simp only: l(3,5))
  moreover have "length (sd_numbers r) = md_num_atoms (sd_metadata r)"
    by (simp only: l(3,4,5))
  ultimately show ?thesis using l(1,5) by simp
qed

theorem atom_count_law_witness:
  "\<exists>r. generate_structure ''Cu'' ''fcc'' None (3, 2, 1) None = Inr r \<and>
       md_num_atoms (sd_metadata r) = 24 \<and> length (sd_positions r) = 24 \<and> length (sd_numbers r) = 24"
proof -
  obtain r where r: "generate_structure ''Cu'' ''fcc'' None (3, 2, 1) None = Inr r"
    using Cu_fcc_succeeds [of 3 2 1 None] by auto
  have "int (md_num_atoms (sd_metadata r)) = 24"
    using atom_count_law [OF r] by (simp add: lower_fcc basis_count_def)
  then have "md_num_atoms (sd_metadata r) = 24" by linarith
  then show ?thesis using r atom_count_law [OF r] by auto
qed




text \<open>
  C3 as stated has an angle of 0 degrees rejected with the angle message. The cell with
  rows \<open>(1,0,0)\<close>, \<open>(2,0,0)\<close>, \<open>(0,0,1)\<close> has gamma equal to 0; the checks on its cell
  parameters pass, and whatever \<open>validate_structure\<close> raises for atoms in that cell, it
  is not the angle error.
\<close>

theorem angle_check_counterexample:
  "cell_to_cellpar ((1, 0, 0), (2, 0, 0), (0, 0, 1)) = [1, 2, 1, 90, 90, 0] \<and>
   check_cellpar [1, 2, 1, 90, 90, 0] = Inr () \<and>
   validate_structure
     \<lparr>positions = [(0, 0, 0)], numbers = [29],
      cell = ((1, 0, 0), (2, 0, 0), (0, 0, 1)), pbc = (True, True, True)\<rparr>
     \<noteq> Inl (ValueError ''Invalid cell parameters: angles must be between 0 and 180 degrees'')"
  by (simp add: cell_to_cellpar_def norm3_def angle_deg_def check_cellpar_def
        validate_structure_def get_scaled_positions_def)

text \<open>
  C3, amended (angle check). On cell parameters \<open>[la, lb, lc, al, be, ga]\<close> the angle error
  "Invalid cell parameters: angles must be between 0 and 180 degrees" is raised exactly
  when the three lengths are positive and some angle exceeds 180 degrees in absolute
  value; an angle of 0 passes. The angles derived from a cell matrix lie between 0 and 180
  degrees, so \<open>validate_structure\<close> never raises the angle error.
\<close>

theorem angle_check:
  "(check_cellpar [la, lb, lc, al, be, ga] =
      Inl (ValueError ''Invalid cell parameters: angles must be between 0 and 180 degrees'')
    \<longleftrightarrow> (0 < la \<and> 0 < lb \<and> 0 < lc) \<and> (180 < \<bar>al\<bar> \<or> 180 < \<bar>be\<bar> \<or> 180 < \<bar>ga\<bar>))
   \<and> validate_structure atoms \<noteq>
      Inl (ValueError ''Invalid cell parameters: angles must be between 0 and 180 degrees'')"
proof -
  have a: "check_cellpar [la, lb, lc, al, be, ga] =
      Inl (ValueError ''Invalid cell parameters: angles must be between 0 and 180 degrees'')
    \<longleftrightarrow> (0 < la \<and> 0 < lb \<and> 0 < lc) \<and> (180 < \<bar>al\<bar> \<or> 180 < \<bar>be\<bar> \<or> 180 < \<bar>ga\<bar>)"
    by (auto simp: check_cellpar_def)
  have b: "validate_structure atoms \<noteq>
      Inl (ValueError ''Invalid cell parameters: angles must be between 0 and 180 degrees'')"
    using cell_angles_within_180 [of "cell atoms"]
    by (auto simp: validate_structure_def check_cellpar_def
          split: sum.splits if_splits dest: get_scaled_positions_Inl)
  show ?thesis using a b by blast
qed

theorem angle_check_witness:
  "check_cellpar [1, 1, 1, 90, 90, 181] =
      Inl (ValueError ''Invalid cell parameters: angles must be between 0 and 180 degrees'') \<and>
   check_cellpar [1, 1, 1, 90, 90, 0] \<noteq>
      Inl (ValueError ''Invalid cell parameters: angles must be between 0 and 180 degrees'')"
  using angle_check [of 1 1 1 90 90 181] angle_check [of 1 1 1 90 90 0]
  by simp

text \<open>
  C4 (cell scaling law). Whenever \<open>generate_structure\<close> returns a record for a replication
  \<open>(nx, ny, nz)\<close>, the base structure for the recorded structure type, lattice constant
  and c/a ratio exists, and the returned cell is its cell with row 0 scaled by \<open>nx\<close>,
  row 1 by \<open>ny\<close> and row 2 by \<open>nz\<close>.
\<close>

theorem cell_scaling_law:
  assumes "generate_structure e st lc (nx, ny, nz) coa = Inr r"
  shows "\<exists>ua. base_structure e (md_structure_type (sd_metadata r))
               (md_lattice_constant (sd_metadata r)) (md_c_over_a (sd_metadata r)) = Inr ua \<and>
           sd_cell r = (case cell ua of (a, b, c) \<Rightarrow>
             (smul (real_of_int nx) a, smul (real_of_int ny) b, smul (real_of_int nz) c))"
proof -
  from assms obtain props a ua where
    b: "base_structure e (lower st) a (resolve_c_over_a props (lower st) coa) = Inr ua"
    and r: "md_structure_type (sd_metadata r) = lower st" "md_lattice_constant (sd_metadata r) = a"
       "md_c_over_a (sd_metadata r) =
          (if lower st = ''hcp'' then resolve_c_over_a props (lower st) coa else None)"
       "sd_cell r = cell (repeat ua (nx, ny, nz))"
    by (rule generate_structure_Inr) simp
  have "base_structure e (lower st) a (md_c_over_a (sd_metadata r)) = Inr ua"
    using b base_structure_non_hcp [of "lower st" e a "resolve_c_over_a props (lower st) coa"]
    by (cases "lower st = ''hcp''") (simp_all add: r(3))
  moreover have "sd_cell r = (case cell ua of (a, b, c) \<Rightarrow>
             (smul (real_of_int nx) a, smul (real_of_int ny) b, smul (real_of_int nz) c))"
    by (simp add: r(4) repeat_def split: prod.splits)
  ultimately show ?thesis using r(1,2) by simp
qed

theorem cell_scaling_law_witness:
  "\<exists>r. generate_structure ''Cu'' ''fcc'' None (3, 2, 1) None = Inr r \<and>
       sd_cell r = ((1083 / 100, 0, 0), (0, 722 / 100, 0), (0, 0, 361 / 100))"
proof -
  obtain r where r: "generate_structure ''Cu'' ''fcc'' None (3, 2, 1) None = Inr r"
    using Cu_fcc_succeeds [of 3 2 1 None] by auto
  have md: "md_structure_type (sd_metadata r) = ''fcc''" "md_lattice_constant (sd_metadata r) = 361 / 100"
    using generate_structure_metadata [OF r] by (simp_all add: lower_fcc ELEMENTS_Cu)
  have "sd_cell r = ((1083 / 100, 0, 0), (0, 722 / 100, 0), (0, 0, 361 / 100))"
    using cell_scaling_law [OF r]
    by (auto simp: md base_structure_def bulk_fcc_def make_atoms_def cubic_cell_def
          split: option.splits)
  then show ?thesis using r by blast
qed

text \<open>
  C5 (hcp without a c/a ratio). When the lowered structure type is hcp, the caller gives
  no \<open>c_over_a\<close> and the element's entry in \<open>ELEMENTS\<close> has no default ratio, the call
  returns an error, whatever the other arguments.
\<close>

theorem hcp_without_c_over_a_fails:
  assumes "lower st = ''hcp''"
    and "case ELEMENTS e of None \<Rightarrow> True | Some props \<Rightarrow> get_c_over_a props = None"
  shows "\<exists>err. generate_structure e st lc sz None = Inl err"
proof (cases "generate_structure e st lc sz None")
  case (Inl err)
  then show ?thesis by blast
next
  case (Inr r)
  then obtain props a ua where
    e: "ELEMENTS e = Some props"
    and b: "base_structure e (lower st) a (resolve_c_over_a props (lower st) None) = Inr ua"
    by (rule generate_structure_Inr)
  have "resolve_c_over_a props (lower st) None = None"
    using assms e by (simp add: resolve_c_over_a_hcp)
  with b assms(1) show ?thesis by (simp add: base_structure_def)
qed

theorem hcp_without_c_over_a_fails_witness:
  "lower ''HCP'' = ''hcp'' \<and> (case ELEMENTS ''Cu'' of None \<Rightarrow> True | Some props \<Rightarrow> get_c_over_a props = None) \<and>
   (\<exists>err. generate_structure ''Cu'' ''HCP'' (Some (361 / 100)) (2, 2, 2) None = Inl err)"
  using hcp_without_c_over_a_fails [of "''HCP''" "''Cu''" "Some (361 / 100)" "(2, 2, 2)"]
  by (simp add: ELEMENTS_Cu get_c_over_a_def lower_def lower_char_def)

text \<open>
  C6 as stated has a validation error raised for every replication with a component that
  is zero or negative. For an element that is not in \<open>ELEMENTS\<close> the lookup of line 53
  raises \<open>KeyError\<close> before \<open>validate_input\<close> is called.
\<close>

theorem nonpositive_size_rejected_counterexample:
  "ELEMENTS ''Xx'' = None \<and>
   generate_structure ''Xx'' ''fcc'' None (0, 1, 1) None = Inl (KeyError ''Xx'')"
  by (simp add: ELEMENTS_def generate_structure_def)

text \<open>
  C6, amended (non-positive replication). When a component of the replication is zero or
  negative, the call returns an error, and that error comes from before the construction.
  For an element that is not in \<open>ELEMENTS\<close> it is the \<open>KeyError\<close> of the lookup. For an
  element in \<open>ELEMENTS\<close> it is a \<open>ValueError\<close>: that of a missing default lattice
  constant, or the one \<open>validate_input\<close> raises on this replication.
\<close>

theorem nonpositive_size_rejected:
  assumes "nx \<le> 0 \<or> ny \<le> 0 \<or> nz \<le> 0"
  shows "\<exists>err. generate_structure e st lc (nx, ny, nz) coa = Inl err \<and>
     (case ELEMENTS e of
        None \<Rightarrow> err = KeyError e
      | Some props \<Rightarrow>
          (\<exists>msg. err = ValueError msg) \<and>
          (err = ValueError ''No default lattice constant for {element} {structure_type}. Please provide one.'' \<or>
           (\<exists>a c. validate_input e (lower st) a (nx, ny, nz) c = Inl err)))"
proof (cases "ELEMENTS e")
  case None
  then show ?thesis by (simp add: generate_structure_def)
next
  case (Some props)
  show ?thesis
  proof (cases "case lc of None \<Rightarrow> lattice_constants props (lower st) | Some a \<Rightarrow> Some a")
    case None
    then show ?thesis using Some by (simp add: generate_structure_def)
  next
    case (Some a)
    from validate_input_bad_size [OF assms] obtain err where
      err: "validate_input e (lower st) a (nx, ny, nz) (resolve_c_over_a props (lower st) coa) = Inl err"
      by blast
    have "generate_structure e st lc (nx, ny, nz) coa = Inl err"
      using \<open>ELEMENTS e = Some props\<close> Some err by (simp add: generate_structure_def)
    moreover have "\<exists>msg. err = ValueError msg" using err by (rule validate_input_Inl)
    ultimately show ?thesis using err \<open>ELEMENTS e = Some props\<close> by auto
  qed
qed

theorem nonpositive_size_rejected_witness:
  "(0::int) \<le> 0 \<and>
   generate_structure ''Cu'' ''fcc'' None (0, 1, 1) None =
     Inl (ValueError ''Invalid supercell size: {size}. All dimensions must be positive'')"
proof -
  have v: "validate_input ''Cu'' ''fcc'' (361 / 100) (0, 1, 1) None =
     Inl (ValueError ''Invalid supercell size: {size}. All dimensions must be positive'')"
    by (simp add: validate_input_def ELEMENTS_Cu lower_fcc VALID_STRUCTURES_def size_components_def)
  from nonpositive_size_rejected [of 0 1 1 "''Cu''" "''fcc''" None None]
  obtain err where err: "generate_structure ''Cu'' ''fcc'' None (0, 1, 1) None = Inl err"
    by auto
  then have "err = ValueError ''Invalid supercell size: {size}. All dimensions must be positive''"
    by (simp add: generate_structure_def ELEMENTS_Cu lower_fcc resolve_c_over_a_def v)
  with err show ?thesis by simp
qed

text \<open>
  C7 as stated holds for every replication. For titanium with the defaults and the
  replication \<open>(2, 1, 1)\<close> the call succeeds with the ratio 1.587 recorded, and the norm
  of row 2 over the norm of row 0 of the returned cell is 0.7935, half of it.
\<close>

theorem c_over_a_round_trip_counterexample:
  "(case generate_structure ''Ti'' ''hcp'' None (2, 1, 1) None of
      Inl err \<Rightarrow> False
    | Inr r \<Rightarrow> md_c_over_a (sd_metadata r) = Some (1587 / 1000) \<and>
              cell_c_over_a (sd_cell r) = 1587 / 2000 \<and>
              \<not> \<bar>cell_c_over_a (sd_cell r) - 1587 / 1000\<bar> \<le> 1587 / 1000 / 10 ^ 10)"
proof -
  obtain r where r: "generate_structure ''Ti'' ''hcp'' None (2, 1, 1) None = Inr r"
    using Ti_hcp_succeeds [of 2 1 1] by auto
  from r lower_hcp obtain props a ratio where
    h: "ELEMENTS ''Ti'' = Some props"
       "(case None of None \<Rightarrow> get_c_over_a props | Some x \<Rightarrow> Some x) = Some ratio"
       "md_c_over_a (sd_metadata r) = Some ratio"
       "sd_cell r = scale_rows (2, 1, 1) (hcp_cell a (a * ratio))"
       "0 < a" "0 < ratio"
    by (rule generate_structure_hcp_cell)
  have ratio: "ratio = 1587 / 1000" using h(1,2) by (auto simp: ELEMENTS_Ti get_c_over_a_def)
  have "cell_c_over_a (sd_cell r) = 1587 / 2000"
    using cell_c_over_a_hcp [OF h(5,6), of 2 1 1] by (simp add: h(4) ratio)
  then show ?thesis using h(3) by (simp add: r ratio)
qed

text \<open>
  C7, amended (c/a round trip). Whenever \<open>generate_structure\<close> returns a record for hcp
  and a replication \<open>(nx, ny, nz)\<close>, the ratio \<open>r\<close> that was resolved (the caller's, else
  the default of \<open>ELEMENTS\<close>) is recorded in the metadata, and the norm of row 2 over the
  norm of row 0 of the returned cell equals \<open>r \<times> nz / nx\<close>; it is \<open>r\<close> when \<open>nx = nz\<close>.
\<close>

theorem c_over_a_round_trip:
  assumes "generate_structure e st lc (nx, ny, nz) coa = Inr r" and "lower st = ''hcp''"
  shows "\<exists>props ratio. ELEMENTS e = Some props \<and>
           (case coa of None \<Rightarrow> get_c_over_a props | Some x \<Rightarrow> Some x) = Some ratio \<and>
           md_c_over_a (sd_metadata r) = Some ratio \<and>
           cell_c_over_a (sd_cell r) = ratio * (real_of_int nz / real_of_int nx)"
proof -
  from assms obtain props a ratio where
    h: "ELEMENTS e = Some props"
       "(case coa of None \<Rightarrow> get_c_over_a props | Some x \<Rightarrow> Some x) = Some ratio"
       "md_c_over_a (sd_metadata r) = Some ratio"
       "sd_cell r = scale_rows (nx, ny, nz) (hcp_cell a (a * ratio))"
       "0 < a" "0 < ratio" "0 < nx" "0 < nz"
    by (rule generate_structure_hcp_cell)
  have "cell_c_over_a (sd_cell r) = ratio * (real_of_int nz / real_of_int nx)"
    unfolding h(4) by (rule cell_c_over_a_hcp [OF h(5,6,7,8)])
  then show ?thesis using h(1,2,3) by blast
qed

theorem c_over_a_round_trip_witness:
  "lower ''hcp'' = ''hcp'' \<and>
   (\<exists>r. generate_structure ''Ti'' ''hcp'' None (2, 3, 2) None = Inr r \<and>
        md_c_over_a (sd_metadata r) = Some (1587 / 1000) \<and>
        cell_c_over_a (sd_cell r) = 1587 / 1000)"
proof -
  obtain r where r: "generate_structure ''Ti'' ''hcp'' None (2, 3, 2) None = Inr r"
    using Ti_hcp_succeeds [of 2 3 2] by auto
  from c_over_a_round_trip [OF r lower_hcp]
  have "md_c_over_a (sd_metadata r) = Some (1587 / 1000) \<and> cell_c_over_a (sd_cell r) = 1587 / 1000"
    by (auto simp: ELEMENTS_Ti get_c_over_a_def)
  then show ?thesis using r lower_hcp by blast
qed

text \<open>
  C9 (species homogeneity). Whenever \<open>generate_structure\<close> returns a record, the element
  has an entry in \<open>ELEMENTS\<close> and every entry of \<open>numbers\<close> is that entry's atomic
  number.
\<close>

theorem species_homogeneity:
  assumes "generate_structure e st lc sz coa = Inr r"
  shows "\<exists>props. ELEMENTS e = Some props \<and>
           list_all (\<lambda>n. n = atomic_number props) (sd_numbers r)"
proof -
  from assms obtain props a ua where
    e: "ELEMENTS e = Some props"
    and b: "base_structure e (lower st) a (resolve_c_over_a props (lower st) coa) = Inr ua"
    and r: "sd_numbers r = numbers (repeat ua sz)"
    by (rule generate_structure_Inr) simp
  from b obtain z basis m where
    z: "atomic_numbers e = Some z"
    and ua: "ua = \<lparr>positions = map (\<lambda>f. vecmat f m) basis, numbers = replicate (length basis) z,
           cell = m, pbc = (True, True, True)\<rparr>"
    by (rule base_structure_Inr)
  have "z = atomic_number props" using registry_atomic_numbers [OF e] z by simp
  moreover have "set (numbers (repeat ua sz)) \<subseteq> {z}"
    using set_numbers_repeat [of ua sz] by (auto simp: ua)
  ultimately show ?thesis using e r by (auto simp: list_all_iff)
qed

theorem species_homogeneity_witness:
  "\<exists>r. generate_structure ''Cu'' ''fcc'' None (1, 1, 1) None = Inr r \<and>
       sd_numbers r = [29, 29, 29, 29]"
proof -
  obtain r where r: "generate_structure ''Cu'' ''fcc'' None (1, 1, 1) None = Inr r"
    using Cu_fcc_succeeds [of 1 1 1 None] by auto
  have all: "list_all (\<lambda>n. n = 29) (sd_numbers r)"
    using species_homogeneity [OF r] by (simp add: ELEMENTS_Cu)
  have "length (sd_numbers r) = 4"
    using generate_structure_lengths(4) [OF r] by (simp add: lower_fcc basis_count_def)
  then obtain n1 n2 n3 n4 where "sd_numbers r = [n1, n2, n3, n4]"
    by (auto simp: length_Suc_conv numeral_eq_Suc)
  with all have "sd_numbers r = [29, 29, 29, 29]" by simp
  then show ?thesis using r by blast
qed

text \<open>
  C10 (c/a ratio of the cubic families). When the lowered structure type is fcc or bcc,
  the call does the same whatever \<open>c_over_a\<close> the caller gives, a negative one included,
  as with none; and a returned record has no \<open>c_over_a\<close> in its metadata.
\<close>

theorem c_over_a_ignored_for_cubic:
  assumes "lower st = ''fcc'' \<or> lower st = ''bcc''"
  shows "generate_structure e st lc sz coa = generate_structure e st lc sz None \<and>
         (case generate_structure e st lc sz coa of
            Inl err \<Rightarrow> True
          | Inr r \<Rightarrow> md_c_over_a (sd_metadata r) = None)"
proof -
  have nh: "lower st \<noteq> ''hcp''" using assms by auto
  have nh': "lower (lower st) \<noteq> ''hcp''" using assms by (auto simp: lower_fcc lower_bcc)
  have v: "validate_input e (lower st) a sz coa = validate_input e (lower st) a sz None" for a
    using nh' by (simp add: validate_input_def Let_def split: option.splits)
  have b: "base_structure e (lower st) a coa = base_structure e (lower st) a None" for a
    using nh by (rule base_structure_non_hcp)
  have eq: "generate_structure e st lc sz coa = generate_structure e st lc sz None"
    unfolding generate_structure_def Let_def
    by (simp add: resolve_c_over_a_non_hcp [OF nh] v b nh split: option.splits sum.splits)
  have "md_c_over_a (sd_metadata r) = None" if "generate_structure e st lc sz coa = Inr r" for r
    using that by (rule generate_structure_Inr) (simp add: nh)
  then show ?thesis using eq by (simp split: sum.splits)
qed

theorem c_over_a_ignored_for_cubic_witness:
  "lower ''fcc'' = ''fcc'' \<and>
   (\<exists>r. generate_structure ''Cu'' ''fcc'' None (1, 1, 1) (Some (- 1)) = Inr r \<and>
        generate_structure ''Cu'' ''fcc'' None (1, 1, 1) None = Inr r \<and>
        md_c_over_a (sd_metadata r) = None)"
proof -
  obtain r where r: "generate_structure ''Cu'' ''fcc'' None (1, 1, 1) (Some (- 1)) = Inr r"
    using Cu_fcc_succeeds [of 1 1 1 "Some (- 1)"] by auto
  have "generate_structure ''Cu'' ''fcc'' None (1, 1, 1) None = Inr r \<and>
        md_c_over_a (sd_metadata r) = None"
    using c_over_a_ignored_for_cubic [of "''fcc''" "''Cu''" None "(1, 1, 1)" "Some (- 1)"] r lower_fcc
    by simp
  then show ?thesis using r lower_fcc by blast
qed

end
